theory Spec2Isabelle
  imports Main "HOL-Library.Word" "HOL-Library.Sublist"
begin

unbundle bit_operations_syntax

section \<open>Messages\<close>

text \<open>
  Modelled from the spec: the message types of package \<^verbatim>\<open>message\<close>
  (\<^verbatim>\<open>QosType\<close>, \<^verbatim>\<open>PublishMessage\<close>, \<^verbatim>\<open>PubRelMessage\<close>, \<^verbatim>\<open>Provider\<close>), which
  \<^verbatim>\<open>session.go\<close> imports. The spec's data model gives a queued message as one of
  PUBLISH or PUBREL, carrying QoS, topic, payload, retain flag, duplicate flag and a packet
  identifier, where 0 stands for "not assigned yet". The three delivery levels are those of
  the glossary.
\<close>

datatype QosType = QosAtMostOnce | QosAtLeastOnce | QosExactlyOnce

record PublishMessage =
  QoS :: QosType
  Topic :: string
  Payload :: "8 word list"
  Retain :: bool
  Dup :: bool
  PacketID :: "16 word"

text \<open>
  Modelled from the spec: \<^verbatim>\<open>message.NewPublishMessage()\<close>, a PUBLISH with nothing set.
\<close>

definition NewPublishMessage :: PublishMessage where
  "NewPublishMessage =
     \<lparr>QoS = QosAtMostOnce, Topic = [], Payload = [], Retain = False, Dup = False,
      PacketID = 0\<rparr>"

text \<open>
  A \<^verbatim>\<open>message.Provider\<close> held by the publish queue: a PUBLISH, or a PUBREL, which carries
  its packet identifier only.
\<close>

datatype Provider = PublishMsg PublishMessage | PubRelMsg "16 word"

fun ProviderPacketID :: "Provider \<Rightarrow> 16 word" where
  "ProviderPacketID (PublishMsg m) = PacketID m"
| "ProviderPacketID (PubRelMsg p) = p"

section \<open>The ack tracker\<close>

text \<open>
  Modelled from the spec: the ack tracker (\<^verbatim>\<open>ackQueue\<close> with \<^verbatim>\<open>put\<close> and \<^verbatim>\<open>ack\<close>), which is
  defined in another file of the package. Section 4.3 of the spec: \<^verbatim>\<open>register\<close> stores the
  message keyed by its packet identifier and ignores the registration when an entry for
  that identifier exists; \<^verbatim>\<open>acknowledge\<close> removes the entry if present and is a no-op
  otherwise. The completion callback of the outbound tracker, \<^verbatim>\<open>onAckOut\<close>, has an empty
  body in \<^verbatim>\<open>session.go\<close>, so acknowledging there changes the tracker only.
\<close>

type_synonym ackQueue = "16 word \<rightharpoonup> Provider"

definition ackQueue_put :: "ackQueue \<Rightarrow> Provider \<Rightarrow> ackQueue" where
  "ackQueue_put q msg =
     (case q (ProviderPacketID msg) of
        None \<Rightarrow> q(ProviderPacketID msg \<mapsto> msg)
      | Some _ \<Rightarrow> q)"

definition ackQueue_ack :: "ackQueue \<Rightarrow> Provider \<Rightarrow> ackQueue" where
  "ackQueue_ack q msg = q(ProviderPacketID msg := None)"

section \<open>The session\<close>

text \<open>
  The state of a channel used as a shutdown signal: the zero value \<^verbatim>\<open>nil\<close>, a channel made
  by \<^verbatim>\<open>make\<close> and still open, or a closed one. A receive on a closed channel succeeds at
  once; a receive on a nil or an open empty channel does not, so a \<^verbatim>\<open>select\<close> with a
  \<^verbatim>\<open>default\<close> branch takes the default there. Closing a nil or a closed channel panics.
\<close>

datatype chan = ChanNil | ChanOpen | ChanClosed

text \<open>
  The connection of the session: what \<^verbatim>\<open>newConnection\<close> is configured with (the callbacks
  it is wired with are the session's own methods and are left out).
\<close>

record connConfig =
  conn_id :: string
  conn_closer :: nat
  conn_keepAlive :: int

datatype error = AlreadyRunning | ConnectionError string

text \<open>
  The fields of \<^verbatim>\<open>Type\<close>, with those of \<^verbatim>\<open>config\<close> and \<^verbatim>\<open>publisher\<close> that the methods of
  \<^verbatim>\<open>session.go\<close> read or write. A \<^verbatim>\<open>sync.WaitGroup\<close> is its counter; mutexes are left
  out, each method below being one critical section run without interference. The
  messages of the queue are values: the worker's in-place updates of a dequeued message
  are updates of the value it then registers, writes and requeues.
\<close>

record session =
  config_id :: string
  subscriptions :: "string \<rightharpoonup> QosType"
  ack_pubIn :: ackQueue
  ack_pubOut :: ackQueue
  will :: "PublishMessage option"
  conn :: "connConfig option"
  wgSessionStarted :: nat
  wgSessionStopped :: nat
  publisher_quit :: chan
  publisher_started :: nat
  publisher_stopped :: nat
  publisher_messages :: "Provider list"
  retained_list :: "PublishMessage list"
  running :: int
  closed :: int
  clean :: bool
  packetID :: "64 word"

text \<open>
  \<^verbatim>\<open>newSession\<close>: every field but the configuration and the empty queue has Go's zero
  value. (The loop that re-subscribes the stored subscriptions at the topics manager
  changes no field of the session.)
\<close>

definition newSession :: "string \<Rightarrow> (string \<rightharpoonup> QosType) \<Rightarrow> session" where
  "newSession ident subs =
     \<lparr>config_id = ident, subscriptions = subs, ack_pubIn = Map.empty,
      ack_pubOut = Map.empty, will = None, conn = None, wgSessionStarted = 0,
      wgSessionStopped = 0, publisher_quit = ChanNil, publisher_started = 0,
      publisher_stopped = 0, publisher_messages = [], retained_list = [], running = 0,
      closed = 0, clean = False, packetID = 0\<rparr>"

subsection \<open>Packet identifiers\<close>

text \<open>
  \<^verbatim>\<open>newPacketID\<close>: the 64-bit counter is incremented (wrapping at \<open>2^64\<close>) and the new
  value, masked to its low 16 bits, is returned as a \<^verbatim>\<open>uint16\<close>.
\<close>

definition newPacketID :: "session \<Rightarrow> 16 word \<times> session" where
  "newPacketID s =
     (let n = packetID s + 1
      in (ucast (n AND 0xFFFF), s\<lparr>packetID := n\<rparr>))"

text \<open>The identifier returned by the \<open>n\<close>-th call (\<open>n \<ge> 1\<close>) on a session.\<close>

fun newPacketID_calls :: "nat \<Rightarrow> session \<Rightarrow> 16 word \<times> session" where
  "newPacketID_calls 0 s = (0, s)"
| "newPacketID_calls (Suc n) s = newPacketID (snd (newPacketID_calls n s))"

subsection \<open>Calls to collaborators\<close>

text \<open>
  What a method does besides updating the fields of the session is a list of calls, in
  program order: the callbacks of the owning manager, the topics manager, the connection,
  the logger, the start of the worker goroutine, and the operations on the
  \<^verbatim>\<open>container/list\<close> queue (\<^verbatim>\<open>PushBack\<close>; \<^verbatim>\<open>Remove\<close> of the front element by the worker
  loop, written \<open>ListRemoveFront\<close>; \<^verbatim>\<open>Remove\<close> of an element by the drain on exit).
\<close>

datatype call =
    ManagerOnClose string "string \<rightharpoonup> QosType"
  | ManagerOnPublish string PublishMessage
  | TopicsRetain PublishMessage
  | TopicsPublish PublishMessage
  | ConnClose nat
  | ConnStart
  | ConnWriteMessage Provider
  | GoPublishWorker
  | AppLogErrorf
  | ListPushBack Provider
  | ListRemoveFront Provider
  | ListRemove Provider

text \<open>
  How a call of a method ends: it returns a value, with the session and the calls made; it
  blocks in a \<^verbatim>\<open>Wait\<close> that nothing in this run can release; or it panics (closing a nil or
  closed channel, a negative \<^verbatim>\<open>WaitGroup\<close> counter).
\<close>

datatype 'a outcome =
    Returned 'a session "call list"
  | Blocked
  | Panicked session "call list"

subsection \<open>start\<close>

record ConnectMessage =
  WillFlag :: bool
  WillQos :: QosType
  WillTopic :: string
  WillMessage :: "8 word list"
  WillRetain :: bool
  CleanSession :: bool
  KeepAlive :: "16 word"

text \<open>
  The deferred function of \<^verbatim>\<open>start\<close> (lines 168-175). It runs on every return, with the
  named result \<^verbatim>\<open>err\<close>: when \<^verbatim>\<open>err\<close> is not nil it closes the shutdown signal, clears the
  connection handle and stores 0 in \<^verbatim>\<open>running\<close>; it always ends with
  \<^verbatim>\<open>wgSessionStarted.Done()\<close>.
\<close>

definition start_deferred :: "error option \<Rightarrow> session \<Rightarrow> call list \<Rightarrow> (error option) outcome" where
  "start_deferred err s cs =
     (case err of
        None \<Rightarrow>
          (if wgSessionStarted s = 0 then Panicked s cs
           else Returned None (s\<lparr>wgSessionStarted := wgSessionStarted s - 1\<rparr>) cs)
      | Some e \<Rightarrow>
          (case publisher_quit s of
             ChanOpen \<Rightarrow>
               (let s1 = s\<lparr>publisher_quit := ChanClosed, conn := None, running := 0\<rparr>
                in if wgSessionStarted s1 = 0 then Panicked s1 cs
                   else Returned (Some e) (s1\<lparr>wgSessionStarted := wgSessionStarted s1 - 1\<rparr>) cs)
           | ChanNil \<Rightarrow> Panicked s cs
           | ChanClosed \<Rightarrow> Panicked s cs))"

text \<open>
  \<^verbatim>\<open>start\<close> (lines 167-225). \<^verbatim>\<open>newConnection\<close> is defined in another file of the package
  and is a parameter. The worker started by \<^verbatim>\<open>go s.publishWorker()\<close> first runs
  \<^verbatim>\<open>s.publisher.started.Done()\<close>, which takes back the \<^verbatim>\<open>Add(1)\<close> of line 220 and
  releases \<^verbatim>\<open>s.publisher.started.Wait()\<close> unless the counter was positive before.
\<close>

definition start ::
  "session \<Rightarrow> ConnectMessage \<Rightarrow> nat \<Rightarrow> (connConfig \<Rightarrow> error + connConfig) \<Rightarrow>
   (error option) outcome" where
  "start s msg c newConnection =
     (if 0 < wgSessionStopped s then Blocked
      else if running s \<noteq> 0 then start_deferred (Some AlreadyRunning) s []
      else
        let s1 = s\<lparr>running := 1, wgSessionStarted := wgSessionStarted s + 1,
                   wgSessionStopped := wgSessionStopped s + 1\<rparr>;
            s2 = (if WillFlag msg
                  then s1\<lparr>will := Some (NewPublishMessage\<lparr>QoS := WillQos msg,
                              Topic := WillTopic msg, Payload := WillMessage msg,
                              Retain := WillRetain msg\<rparr>)\<rparr>
                  else s1);
            s3 = s2\<lparr>clean := CleanSession msg, publisher_quit := ChanOpen\<rparr>
        in case newConnection \<lparr>conn_id = config_id s3, conn_closer = c,
                               conn_keepAlive = uint (KeepAlive msg)\<rparr> of
             Inl e \<Rightarrow> start_deferred (Some e) (s3\<lparr>conn := None\<rparr>) []
           | Inr cn \<Rightarrow>
               (let s4 = s3\<lparr>conn := Some cn,
                           publisher_stopped := publisher_stopped s3 + 1\<rparr>
                in if 0 < publisher_started s4 then Blocked
                   else start_deferred None s4 [ConnStart, GoPublishWorker]))"

subsection \<open>stop\<close>

text \<open>
  \<^verbatim>\<open>stop\<close> (lines 228-249). \<open>close_err\<close> is what \<^verbatim>\<open>Close\<close> of the transport returns (an
  error is logged only). Between closing the transport and the callback the method waits
  for \<^verbatim>\<open>wgSessionStopped\<close>, which other goroutines release: \<open>others\<close> is what they do to
  the session meanwhile (the identity when nothing else runs), and the clean flag and the
  subscription set are read after it.
\<close>

definition stop ::
  "session \<Rightarrow> error option \<Rightarrow> (session \<Rightarrow> session) \<Rightarrow> unit outcome" where
  "stop s close_err others =
     (if closed s \<noteq> 0
      then (if 0 < wgSessionStarted s then Blocked else Returned () s [])
      else
        let s1 = s\<lparr>closed := 1\<rparr>;
            cs1 = (case conn s1 of
                     None \<Rightarrow> []
                   | Some cn \<Rightarrow>
                       ConnClose (conn_closer cn) #
                       (case close_err of None \<Rightarrow> [] | Some e \<Rightarrow> [AppLogErrorf]));
            s2 = others s1
        in if 0 < wgSessionStopped s2 then Blocked
           else Returned () s2
                  (cs1 @ (if clean s2 then []
                          else [ManagerOnClose (config_id s2) (subscriptions s2)])))"

subsection \<open>Producers of the publish queue\<close>

text \<open>
  \<^verbatim>\<open>onSubscribedPublish\<close> (lines 258-289). The receive from the shutdown signal in the
  \<^verbatim>\<open>select\<close> succeeds only on a closed channel.
\<close>

definition onSubscribedPublish ::
  "session \<Rightarrow> PublishMessage \<Rightarrow> error option \<times> session \<times> call list" where
  "onSubscribedPublish s msg =
     (let m = NewPublishMessage\<lparr>QoS := QoS msg, Topic := Topic msg,
                Payload := Payload msg, Retain := False, Dup := False\<rparr>
      in if QoS msg = QosAtMostOnce \<and> publisher_quit s = ChanClosed
         then (None, s, [ManagerOnPublish (config_id s) m])
         else (None, s\<lparr>publisher_messages := publisher_messages s @ [PublishMsg m]\<rparr>,
               [ListPushBack (PublishMsg m)]))"

text \<open>
  \<^verbatim>\<open>restore\<close> (lines 150-163); \<^verbatim>\<open>messages\<close> may be nil.
\<close>

record SessionMessages =
  Out_Messages :: "Provider list"
  In_Messages :: "Provider list"

definition restore :: "session \<Rightarrow> SessionMessages option \<Rightarrow> session \<times> call list" where
  "restore s messages =
     (case messages of
        None \<Rightarrow> (s, [])
      | Some ms \<Rightarrow>
          (s\<lparr>publisher_messages := publisher_messages s @ Out_Messages ms,
             ack_pubIn := foldl ackQueue_put (ack_pubIn s) (In_Messages ms)\<rparr>,
           map ListPushBack (Out_Messages ms)))"

subsection \<open>Subscriptions\<close>

definition addTopic :: "session \<Rightarrow> string \<Rightarrow> QosType \<Rightarrow> error option \<times> session" where
  "addTopic s t q = (None, s\<lparr>subscriptions := (subscriptions s)(t \<mapsto> q)\<rparr>)"

definition removeTopic :: "session \<Rightarrow> string \<Rightarrow> error option \<times> session" where
  "removeTopic s t = (None, s\<lparr>subscriptions := (subscriptions s)(t := None)\<rparr>)"

subsection \<open>publishToTopic\<close>

text \<open>
  \<^verbatim>\<open>publishToTopic\<close> (lines 316-342). \<open>retain_err\<close> and \<open>publish_err\<close> are what the topics
  manager's \<^verbatim>\<open>Retain\<close> and \<^verbatim>\<open>Publish\<close> return. The result holds the returned error, the
  session, the message as the method leaves it (it clears the retain flag in place), and
  the calls.
\<close>

definition publishToTopic ::
  "session \<Rightarrow> PublishMessage \<Rightarrow> error option \<Rightarrow> error option \<Rightarrow>
   error option \<times> session \<times> PublishMessage \<times> call list" where
  "publishToTopic s msg retain_err publish_err =
     (let (s1, cs1) =
            (if Retain msg
             then ((if QoS msg = QosAtMostOnce
                    then s\<lparr>retained_list := retained_list s @
                             [NewPublishMessage\<lparr>QoS := QoS msg, Topic := Topic msg\<rparr>]\<rparr>
                    else s),
                   TopicsRetain msg #
                   (case retain_err of None \<Rightarrow> [] | Some e \<Rightarrow> [AppLogErrorf]))
             else (s, []));
          msg1 = msg\<lparr>Retain := False\<rparr>
      in (None, s1, msg1,
          cs1 @ TopicsPublish msg1 #
          (case publish_err of None \<Rightarrow> [] | Some e \<Rightarrow> [AppLogErrorf])))"

subsection \<open>The publish worker\<close>

text \<open>\<^verbatim>\<open>isDone\<close> (lines 459-467).\<close>

definition isDone :: "session \<Rightarrow> bool" where
  "isDone s = (publisher_quit s = ChanClosed)"

text \<open>
  The loop of the deferred function of \<^verbatim>\<open>publishWorker\<close> (lines 379-387) walks the queue
  from the front and removes each PUBLISH whose QoS is "at most once".
\<close>

fun drain :: "Provider list \<Rightarrow> Provider list" where
  "drain [] = []"
| "drain (PublishMsg m # rest) =
     (if QoS m = QosAtMostOnce then drain rest else PublishMsg m # drain rest)"
| "drain (PubRelMsg p # rest) = PubRelMsg p # drain rest"

fun drained :: "Provider list \<Rightarrow> Provider list" where
  "drained [] = []"
| "drained (PublishMsg m # rest) =
     (if QoS m = QosAtMostOnce then PublishMsg m # drained rest else drained rest)"
| "drained (PubRelMsg p # rest) = drained rest"

text \<open>
  The deferred function of \<^verbatim>\<open>publishWorker\<close> (lines 376-394): the drain, then
  \<^verbatim>\<open>s.publisher.stopped.Done()\<close>.
\<close>

definition publishWorker_deferred :: "session \<Rightarrow> unit outcome" where
  "publishWorker_deferred s =
     (let s1 = s\<lparr>publisher_messages := drain (publisher_messages s)\<rparr>;
          cs = map ListRemove (drained (publisher_messages s))
      in if publisher_stopped s1 = 0 then Panicked s1 cs
         else Returned () (s1\<lparr>publisher_stopped := publisher_stopped s1 - 1\<rparr>) cs)"

text \<open>
  Lines 419-433: what the worker does with a dequeued message before it writes it. A
  PUBREL is registered with the outbound ack tracker; a PUBLISH of QoS 1 or 2 gets a
  packet identifier when its identifier is 0, and is registered; a PUBLISH of QoS 0 is
  left alone.
\<close>

definition register_outbound :: "session \<Rightarrow> Provider \<Rightarrow> Provider \<times> session" where
  "register_outbound s msg =
     (case msg of
        PubRelMsg p \<Rightarrow> (msg, s\<lparr>ack_pubOut := ackQueue_put (ack_pubOut s) msg\<rparr>)
      | PublishMsg m \<Rightarrow>
          (case QoS m of
             QosAtMostOnce \<Rightarrow> (msg, s)
           | _ \<Rightarrow>
               (let (m1, s1) =
                      (if PacketID m = 0
                       then (let (pid, s') = newPacketID s in (m\<lparr>PacketID := pid\<rparr>, s'))
                       else (m, s))
                in (PublishMsg m1,
                    s1\<lparr>ack_pubOut := ackQueue_put (ack_pubOut s1) (PublishMsg m1)\<rparr>))))"

text \<open>
  Lines 436-447: what the worker does with the message when the write failed, before it
  requeues it.
\<close>

definition rollback_outbound :: "session \<Rightarrow> Provider \<Rightarrow> Provider \<times> session" where
  "rollback_outbound s msg =
     (case msg of
        PubRelMsg p \<Rightarrow> (msg, s\<lparr>ack_pubOut := ackQueue_ack (ack_pubOut s) msg\<rparr>)
      | PublishMsg m \<Rightarrow>
          (case QoS m of
             QosAtMostOnce \<Rightarrow> (msg, s)
           | _ \<Rightarrow>
               (let m1 = m\<lparr>Dup := True\<rparr>
                in (PublishMsg m1,
                    s\<lparr>ack_pubOut := ackQueue_ack (ack_pubOut s) (PublishMsg m1)\<rparr>))))"

text \<open>
  One turn of the worker's loop (lines 398-456), from the check of the shutdown signal, or
  from a wake-up in \<^verbatim>\<open>cond.Wait()\<close>, where the signal is checked first as well. With an
  empty queue the worker waits. \<open>write_err\<close> is what \<^verbatim>\<open>writeMessage\<close> of the connection
  returns for the message of this turn.
\<close>

datatype worker_status = Looping | Waiting | Exited

definition publishWorker_iteration ::
  "error option \<Rightarrow> session \<Rightarrow> worker_status \<times> session \<times> call list" where
  "publishWorker_iteration write_err s =
     (if isDone s then (Exited, s, [])
      else
        case publisher_messages s of
          [] \<Rightarrow> (Waiting, s, [])
        | msg # rest \<Rightarrow>
            (let (msg1, s1) = register_outbound (s\<lparr>publisher_messages := rest\<rparr>) msg
             in case write_err of
                  None \<Rightarrow> (Looping, s1, [ListRemoveFront msg, ConnWriteMessage msg1])
                | Some e \<Rightarrow>
                    (let (msg2, s2) = rollback_outbound s1 msg1
                     in (Exited,
                         s2\<lparr>publisher_messages := publisher_messages s2 @ [msg2]\<rparr>,
                         [ListRemoveFront msg, ConnWriteMessage msg1,
                          ListPushBack msg2]))))"

subsection \<open>A session with its worker and its producers\<close>

text \<open>
  The worker goroutine runs beside the producers; every access to the queue is under the
  publisher's lock, so a run is an interleaving of producer calls and worker turns. The
  worker of a session is absent, running, or has taken the process down with a panic.
  \<open>EvSpawn\<close> stands for lines 219-222 of \<^verbatim>\<open>start\<close>, where a later connection starts a
  fresh worker.
\<close>

datatype event =
    EvSubscribedPublish PublishMessage
  | EvRestore "SessionMessages option"
  | EvWorker "error option"
  | EvSpawn

datatype worker_state = NoWorker | WorkerRunning | ProcessDown

record system =
  sys_session :: session
  sys_worker :: worker_state
  sys_calls :: "call list"

definition worker_turn :: "error option \<Rightarrow> system \<Rightarrow> system" where
  "worker_turn write_err sys =
     (case publishWorker_iteration write_err (sys_session sys) of
        (Exited, s1, cs1) \<Rightarrow>
          (case publishWorker_deferred s1 of
             Returned u s2 cs2 \<Rightarrow>
               \<lparr>sys_session = s2, sys_worker = NoWorker,
                sys_calls = sys_calls sys @ cs1 @ cs2\<rparr>
           | Panicked s2 cs2 \<Rightarrow>
               \<lparr>sys_session = s2, sys_worker = ProcessDown,
                sys_calls = sys_calls sys @ cs1 @ cs2\<rparr>
           | Blocked \<Rightarrow> sys)
      | (st, s1, cs1) \<Rightarrow>
          \<lparr>sys_session = s1, sys_worker = WorkerRunning, sys_calls = sys_calls sys @ cs1\<rparr>)"

fun step :: "system \<Rightarrow> event \<Rightarrow> system" where
  "step sys ev =
     (case sys_worker sys of
        ProcessDown \<Rightarrow> sys
      | w \<Rightarrow>
          (case ev of
             EvSubscribedPublish msg \<Rightarrow>
               (case onSubscribedPublish (sys_session sys) msg of
                  (r, s1, cs) \<Rightarrow> sys\<lparr>sys_session := s1, sys_calls := sys_calls sys @ cs\<rparr>)
           | EvRestore ms \<Rightarrow>
               (case restore (sys_session sys) ms of
                  (s1, cs) \<Rightarrow> sys\<lparr>sys_session := s1, sys_calls := sys_calls sys @ cs\<rparr>)
           | EvWorker write_err \<Rightarrow>
               (case w of WorkerRunning \<Rightarrow> worker_turn write_err sys | _ \<Rightarrow> sys)
           | EvSpawn \<Rightarrow>
               (case w of
                  NoWorker \<Rightarrow>
                    sys\<lparr>sys_session := (sys_session sys)
                            \<lparr>publisher_stopped := publisher_stopped (sys_session sys) + 1\<rparr>,
                        sys_worker := WorkerRunning,
                        sys_calls := sys_calls sys @ [GoPublishWorker]\<rparr>
                | _ \<Rightarrow> sys)))"

definition run :: "event list \<Rightarrow> system \<Rightarrow> system" where
  "run evs sys = foldl step sys evs"

text \<open>The messages of the calls to the queue and to the connection, in call order.\<close>

fun pushed :: "call list \<Rightarrow> Provider list" where
  "pushed [] = []"
| "pushed (ListPushBack m # cs) = m # pushed cs"
| "pushed (c # cs) = pushed cs"

fun dequeued :: "call list \<Rightarrow> Provider list" where
  "dequeued [] = []"
| "dequeued (ListRemoveFront m # cs) = m # dequeued cs"
| "dequeued (c # cs) = dequeued cs"

fun written :: "call list \<Rightarrow> Provider list" where
  "written [] = []"
| "written (ConnWriteMessage m # cs) = m # written cs"
| "written (c # cs) = written cs"

text \<open>
  A written message is the dequeued one, or the dequeued PUBLISH of QoS 1 or 2 with
  identifier 0 after the assignment of an identifier.
\<close>

fun written_for :: "Provider \<Rightarrow> Provider \<Rightarrow> bool" where
  "written_for (PublishMsg m) (PublishMsg w) =
     (w = m \<or> (QoS m \<noteq> QosAtMostOnce \<and> PacketID m = 0 \<and> w = m\<lparr>PacketID := PacketID w\<rparr>))"
| "written_for (PubRelMsg p) (PubRelMsg w) = (w = p)"
| "written_for _ _ = False"

subsection \<open>Reading a list of calls\<close>

text \<open>The arguments of the manager's callbacks among the calls, in call order.\<close>

fun onClose_calls :: "call list \<Rightarrow> (string \<times> (string \<rightharpoonup> QosType)) list" where
  "onClose_calls [] = []"
| "onClose_calls (ManagerOnClose i subs # cs) = (i, subs) # onClose_calls cs"
| "onClose_calls (c # cs) = onClose_calls cs"

fun onPublish_calls :: "call list \<Rightarrow> (string \<times> PublishMessage) list" where
  "onPublish_calls [] = []"
| "onPublish_calls (ManagerOnPublish i m # cs) = (i, m) # onPublish_calls cs"
| "onPublish_calls (c # cs) = onPublish_calls cs"

text \<open>The messages with no redelivery guarantee: a PUBLISH of QoS "at most once".\<close>

fun qos0_publish :: "Provider \<Rightarrow> bool" where
  "qos0_publish (PublishMsg m) = (QoS m = QosAtMostOnce)"
| "qos0_publish (PubRelMsg p) = False"

text \<open>The messages that the drain of an exiting worker removed, in call order.\<close>

fun removed :: "call list \<Rightarrow> Provider list" where
  "removed [] = []"
| "removed (ListRemove m # cs) = m # removed cs"
| "removed (c # cs) = removed cs"

text \<open>
  The messages that the producer events of a run offer to the queue, in event order: the
  outbound copy built by \<^verbatim>\<open>onSubscribedPublish\<close>, and the stored outbound messages of
  \<^verbatim>\<open>restore\<close>.
\<close>

fun enqueued :: "event list \<Rightarrow> Provider list" where
  "enqueued [] = []"
| "enqueued (EvSubscribedPublish msg # evs) =
     PublishMsg \<lparr>QoS = QoS msg, Topic = Topic msg, Payload = Payload msg, Retain = False,
       Dup = False, PacketID = 0\<rparr> # enqueued evs"
| "enqueued (EvRestore (Some ms) # evs) = Out_Messages ms @ enqueued evs"
| "enqueued (ev # evs) = enqueued evs"

text \<open>
  What a list of calls \<open>cs\<close> does to the queue, from \<open>q\<close> to \<open>q'\<close>: each dequeued message is
  written, in dequeue order; the dequeued messages followed by the queue are, in order,
  among the old queue followed by the appended messages, and are exactly those when the
  drain removed nothing.
\<close>

definition queue_step :: "Provider list \<Rightarrow> call list \<Rightarrow> Provider list \<Rightarrow> bool" where
  "queue_step q cs q' =
     (list_all2 written_for (dequeued cs) (written cs) \<and>
      subseq (dequeued cs @ q') (q @ pushed cs) \<and>
      (removed cs = [] \<longrightarrow> dequeued cs @ q' = q @ pushed cs))"

section \<open>Properties\<close>

subsection \<open>Packet identifiers\<close>

lemma packetID_newPacketID_calls:
  "packetID (snd (newPacketID_calls n s)) = packetID s + of_nat n"
  by (induction n) (simp_all add: newPacketID_def Let_def)

lemma ucast_mask16: "(ucast ((w :: 64 word) AND 0xFFFF) :: 16 word) = ucast w"
proof -
  have "(0xFFFF :: 64 word) = mask 16"
    by (simp add: mask_eq_exp_minus_1)
  then show ?thesis
    by (simp add: bit_eq_iff bit_simps)
qed

lemma fst_newPacketID_calls:
  "0 < n \<Longrightarrow> fst (newPacketID_calls n s) = ucast (packetID s + of_nat n)"
  by (cases n)
    (simp_all add: newPacketID_def Let_def packetID_newPacketID_calls ucast_mask16 ac_simps)

lemma ucast_of_nat_64_16: "(ucast (of_nat n :: 64 word) :: 16 word) = of_nat n"
  by (simp add: bit_eq_iff bit_simps unsigned_of_nat)

text \<open>
  The wrapping part of claim C2 holds: on a fresh session the \<open>n\<close>-th call returns
  \<open>n mod 2^16\<close>.
\<close>

lemma newPacketID_calls_wraps:
  "0 < n \<Longrightarrow>
   unat (fst (newPacketID_calls n (newSession ident subs))) = n mod 2 ^ 16"
  by (simp add: fst_newPacketID_calls newSession_def ucast_of_nat_64_16 unat_of_nat)

text \<open>
  Claim C2 (the part that fails): the value 0 is never handed out. The counter wraps with
  no guard, so the 65536th call on a fresh session returns 0, the value that
  \<^verbatim>\<open>publishWorker\<close> itself reads as "no identifier assigned".
\<close>

theorem newPacketID_hands_out_zero:
  "fst (newPacketID_calls 65536 (newSession ident subs)) = 0"
  using newPacketID_calls_wraps [of 65536 ident subs] by (simp add: unat_eq_0)

subsection \<open>start\<close>

text \<open>
  The path of \<^verbatim>\<open>start\<close> on a running session, for any session whose shutdown signal is
  open.
\<close>

lemma start_already_running:
  "running s \<noteq> 0 \<Longrightarrow> wgSessionStopped s = 0 \<Longrightarrow> publisher_quit s = ChanOpen \<Longrightarrow>
   wgSessionStarted s = Suc k \<Longrightarrow>
   start s msg c newConnection =
     Returned (Some AlreadyRunning)
       (s\<lparr>publisher_quit := ChanClosed, conn := None, running := 0, wgSessionStarted := k\<rparr>) []"
  by (simp add: start_def start_deferred_def)

text \<open>
  Whatever the state of the shutdown signal and of the counters, the call on a running
  session never returns the error with the session as it was: it tears the session down
  or panics.
\<close>

lemma start_already_running_never_silent:
  assumes "running s \<noteq> 0" and "wgSessionStopped s = 0"
  shows "start s msg c newConnection \<noteq> Returned (Some AlreadyRunning) s []"
proof
  assume r: "start s msg c newConnection = Returned (Some AlreadyRunning) s []"
  show False
  proof (cases "publisher_quit s")
    case ChanOpen
    with assms r have "publisher_quit s = ChanClosed"
      by (auto simp add: start_def start_deferred_def Let_def split: if_splits
          dest: arg_cong [where f = publisher_quit])
    with ChanOpen show False by simp
  next
    case ChanNil
    with assms r show False by (simp add: start_def start_deferred_def)
  next
    case ChanClosed
    with assms r show False by (simp add: start_def start_deferred_def)
  qed
qed

text \<open>
  Claim C1 (fails): a call of \<^verbatim>\<open>start\<close> that finds the session running returns the
  "already running" error and does nothing else. The early return leaves through the
  deferred function with \<^verbatim>\<open>err\<close> set, so the shutdown signal of the running session is
  closed, its connection handle is cleared, \<^verbatim>\<open>running\<close> is reset to 0 and
  \<^verbatim>\<open>wgSessionStarted\<close> is decremented.
\<close>

theorem start_already_running_tears_down:
  "start ((newSession ''client'' Map.empty)
            \<lparr>running := 1, publisher_quit := ChanOpen,
             conn := Some \<lparr>conn_id = ''client'', conn_closer = 7, conn_keepAlive = 60\<rparr>,
             wgSessionStarted := 1\<rparr>)
         msg c newConnection
   = Returned (Some AlreadyRunning)
       ((newSession ''client'' Map.empty)
            \<lparr>running := 0, publisher_quit := ChanClosed, conn := None,
             wgSessionStarted := 0\<rparr>) []"
  by (simp add: start_def start_deferred_def newSession_def)

subsection \<open>onSubscribedPublish\<close>

text \<open>
  Claim C3: a message of QoS "at most once" that arrives while the shutdown signal is
  closed is not appended to the publish queue (the session is unchanged) and is passed to
  the manager's \<^verbatim>\<open>onPublish\<close> callback at once; the outbound copy, whether handed to the
  callback or appended to the queue, has retain and dup false whatever the flags of the
  publisher's message are.
\<close>

theorem onSubscribedPublish_offline:
  "(QoS msg = QosAtMostOnce \<and> publisher_quit s = ChanClosed \<longrightarrow>
      onSubscribedPublish s msg =
        (None, s,
         [ManagerOnPublish (config_id s)
            \<lparr>QoS = QoS msg, Topic = Topic msg, Payload = Payload msg, Retain = False,
             Dup = False, PacketID = 0\<rparr>])) \<and>
   (\<not> (QoS msg = QosAtMostOnce \<and> publisher_quit s = ChanClosed) \<longrightarrow>
      onSubscribedPublish s msg =
        (None,
         s\<lparr>publisher_messages := publisher_messages s @
             [PublishMsg \<lparr>QoS = QoS msg, Topic = Topic msg, Payload = Payload msg,
                Retain = False, Dup = False, PacketID = 0\<rparr>]\<rparr>,
         [ListPushBack
            (PublishMsg \<lparr>QoS = QoS msg, Topic = Topic msg, Payload = Payload msg,
               Retain = False, Dup = False, PacketID = 0\<rparr>)]))"
  by (simp add: onSubscribedPublish_def NewPublishMessage_def Let_def)

theorem onSubscribedPublish_offline_witness:
  "onSubscribedPublish
     ((newSession ''c'' Map.empty)\<lparr>publisher_quit := ChanClosed\<rparr>)
     \<lparr>QoS = QosAtMostOnce, Topic = ''a/b'', Payload = [104, 105], Retain = True,
      Dup = True, PacketID = 0\<rparr>
   = (None, (newSession ''c'' Map.empty)\<lparr>publisher_quit := ChanClosed\<rparr>,
      [ManagerOnPublish ''c''
         \<lparr>QoS = QosAtMostOnce, Topic = ''a/b'', Payload = [104, 105], Retain = False,
          Dup = False, PacketID = 0\<rparr>]) \<and>
   onSubscribedPublish
     ((newSession ''c'' Map.empty)\<lparr>publisher_quit := ChanOpen\<rparr>)
     \<lparr>QoS = QosAtLeastOnce, Topic = ''a/b'', Payload = [104, 105], Retain = True,
      Dup = True, PacketID = 5\<rparr>
   = (None,
      (newSession ''c'' Map.empty)
        \<lparr>publisher_quit := ChanOpen,
         publisher_messages :=
           [PublishMsg \<lparr>QoS = QosAtLeastOnce, Topic = ''a/b'', Payload = [104, 105],
              Retain = False, Dup = False, PacketID = 0\<rparr>]\<rparr>,
      [ListPushBack
         (PublishMsg \<lparr>QoS = QosAtLeastOnce, Topic = ''a/b'', Payload = [104, 105],
            Retain = False, Dup = False, PacketID = 0\<rparr>)])"
  using onSubscribedPublish_offline
    [of "\<lparr>QoS = QosAtMostOnce, Topic = ''a/b'', Payload = [104, 105], Retain = True,
          Dup = True, PacketID = 0\<rparr>"
        "(newSession ''c'' Map.empty)\<lparr>publisher_quit := ChanClosed\<rparr>"]
    onSubscribedPublish_offline
    [of "\<lparr>QoS = QosAtLeastOnce, Topic = ''a/b'', Payload = [104, 105], Retain = True,
          Dup = True, PacketID = 5\<rparr>"
        "(newSession ''c'' Map.empty)\<lparr>publisher_quit := ChanOpen\<rparr>"]
  by (simp add: newSession_def)

text \<open>
  Claim C10: on a session whose shutdown signal is still nil (\<^verbatim>\<open>start\<close> was never
  called), a message of QoS "at most once" is appended to the publish queue and the
  manager's \<^verbatim>\<open>onPublish\<close> callback is not called.
\<close>

theorem onSubscribedPublish_never_started:
  "publisher_quit s = ChanNil \<Longrightarrow> QoS msg = QosAtMostOnce \<Longrightarrow>
   fst (snd (onSubscribedPublish s msg)) =
     s\<lparr>publisher_messages := publisher_messages s @
         [PublishMsg \<lparr>QoS = QosAtMostOnce, Topic = Topic msg, Payload = Payload msg,
            Retain = False, Dup = False, PacketID = 0\<rparr>]\<rparr> \<and>
   onPublish_calls (snd (snd (onSubscribedPublish s msg))) = []"
  by (simp add: onSubscribedPublish_def NewPublishMessage_def Let_def)

theorem onSubscribedPublish_never_started_witness:
  "publisher_quit (newSession ''c'' Map.empty) = ChanNil \<and>
   fst (snd (onSubscribedPublish (newSession ''c'' Map.empty)
     \<lparr>QoS = QosAtMostOnce, Topic = ''a/b'', Payload = [104, 105], Retain = False,
      Dup = False, PacketID = 0\<rparr>))
   = (newSession ''c'' Map.empty)\<lparr>publisher_messages :=
        [PublishMsg \<lparr>QoS = QosAtMostOnce, Topic = ''a/b'', Payload = [104, 105],
           Retain = False, Dup = False, PacketID = 0\<rparr>]\<rparr>"
  using onSubscribedPublish_never_started
    [of "newSession ''c'' Map.empty"
        "\<lparr>QoS = QosAtMostOnce, Topic = ''a/b'', Payload = [104, 105], Retain = False,
          Dup = False, PacketID = 0\<rparr>"]
  by (simp add: newSession_def)

subsection \<open>stop\<close>

text \<open>
  Claim C8: \<^verbatim>\<open>stop\<close> is idempotent. With the closed flag set, the call changes nothing
  and calls nothing (it returns once no \<^verbatim>\<open>start\<close> is in flight). The first \<^verbatim>\<open>stop\<close>
  sets the flag and, once the worker side has finished, calls the manager's \<^verbatim>\<open>onClose\<close>
  with the identifier and the current subscription set exactly when the session is not
  clean, and at most once.
\<close>

theorem stop_idempotent:
  "(closed s \<noteq> 0 \<longrightarrow>
      stop s close_err others = Blocked \<or> stop s close_err others = Returned () s []) \<and>
   (closed s = 0 \<longrightarrow>
      stop s close_err others = Blocked \<or>
      (\<exists>cs. stop s close_err others = Returned () (others (s\<lparr>closed := 1\<rparr>)) cs \<and>
            onClose_calls cs =
              (if clean (others (s\<lparr>closed := 1\<rparr>)) then []
               else [(config_id (others (s\<lparr>closed := 1\<rparr>)),
                      subscriptions (others (s\<lparr>closed := 1\<rparr>)))]) \<and>
            length (onClose_calls cs) \<le> 1))"
  by (simp add: stop_def Let_def split: option.split)

theorem stop_idempotent_witness:
  "stop ((newSession ''c'' [''a/b'' \<mapsto> QosAtLeastOnce])\<lparr>closed := 1\<rparr>) None id
     = Returned () ((newSession ''c'' [''a/b'' \<mapsto> QosAtLeastOnce])\<lparr>closed := 1\<rparr>) [] \<and>
   stop (newSession ''c'' [''a/b'' \<mapsto> QosAtLeastOnce]) None id
     = Returned () ((newSession ''c'' [''a/b'' \<mapsto> QosAtLeastOnce])\<lparr>closed := 1\<rparr>)
         [ManagerOnClose ''c'' [''a/b'' \<mapsto> QosAtLeastOnce]]"
  using stop_idempotent
    [of "(newSession ''c'' [''a/b'' \<mapsto> QosAtLeastOnce])\<lparr>closed := 1\<rparr>" None id]
    stop_idempotent [of "newSession ''c'' [''a/b'' \<mapsto> QosAtLeastOnce]" None id]
  by (simp add: stop_def newSession_def)

subsection \<open>publishToTopic\<close>

text \<open>
  Claim C9: \<^verbatim>\<open>publishToTopic\<close> always returns nil, whatever the topics manager returns;
  the topics manager's \<^verbatim>\<open>Retain\<close> is called with the message exactly when its retain
  flag is set; a local copy (QoS and topic, nothing else of the message) is appended to
  the retained list exactly when the flag is set and the QoS is "at most once", and no
  other field of the session changes; the message goes to the topics manager's
  \<^verbatim>\<open>Publish\<close> with the retain flag cleared.
\<close>

theorem publishToTopic_retains:
  "publishToTopic s msg retain_err publish_err = (r, s', msg', cs) \<Longrightarrow>
   r = None \<and>
   msg' = msg\<lparr>Retain := False\<rparr> \<and>
   filter (\<lambda>c. c \<noteq> AppLogErrorf) cs =
     (if Retain msg then [TopicsRetain msg] else []) @
     [TopicsPublish (msg\<lparr>Retain := False\<rparr>)] \<and>
   retained_list s' = retained_list s @
     (if Retain msg \<and> QoS msg = QosAtMostOnce
      then [\<lparr>QoS = QosAtMostOnce, Topic = Topic msg, Payload = [], Retain = False,
             Dup = False, PacketID = 0\<rparr>]
      else []) \<and>
   s' = s\<lparr>retained_list := retained_list s'\<rparr>"
  by (auto simp add: publishToTopic_def NewPublishMessage_def Let_def
      split: option.splits if_splits)

theorem publishToTopic_retains_witness:
  "publishToTopic (newSession ''c'' Map.empty)
     \<lparr>QoS = QosAtMostOnce, Topic = ''a/b'', Payload = [104, 105], Retain = True,
      Dup = False, PacketID = 0\<rparr> (Some (ConnectionError ''retain'')) (Some (ConnectionError ''publish''))
   = (None,
      (newSession ''c'' Map.empty)\<lparr>retained_list :=
         [\<lparr>QoS = QosAtMostOnce, Topic = ''a/b'', Payload = [], Retain = False,
           Dup = False, PacketID = 0\<rparr>]\<rparr>,
      \<lparr>QoS = QosAtMostOnce, Topic = ''a/b'', Payload = [104, 105], Retain = False,
       Dup = False, PacketID = 0\<rparr>,
      [TopicsRetain \<lparr>QoS = QosAtMostOnce, Topic = ''a/b'', Payload = [104, 105],
         Retain = True, Dup = False, PacketID = 0\<rparr>,
       AppLogErrorf,
       TopicsPublish \<lparr>QoS = QosAtMostOnce, Topic = ''a/b'', Payload = [104, 105],
         Retain = False, Dup = False, PacketID = 0\<rparr>,
       AppLogErrorf])"
proof -
  let ?msg = "\<lparr>QoS = QosAtMostOnce, Topic = ''a/b'', Payload = [104, 105], Retain = True,
      Dup = False, PacketID = 0\<rparr>"
  obtain r s' msg' cs where
    eq: "publishToTopic (newSession ''c'' Map.empty) ?msg
           (Some (ConnectionError ''retain'')) (Some (ConnectionError ''publish''))
         = (r, s', msg', cs)"
    by (cases "publishToTopic (newSession ''c'' Map.empty) ?msg
           (Some (ConnectionError ''retain'')) (Some (ConnectionError ''publish''))") auto
  from publishToTopic_retains [OF eq] have "r = None" by simp
  with eq show ?thesis
    by (simp add: publishToTopic_def NewPublishMessage_def newSession_def Let_def)
qed

subsection \<open>The publish worker: exit\<close>

lemma drain_filter: "drain xs = filter (\<lambda>m. \<not> qos0_publish m) xs"
  by (induction xs rule: drain.induct) simp_all

lemma drained_filter: "drained xs = filter qos0_publish xs"
  by (induction xs rule: drained.induct) simp_all

text \<open>
  Claim C4: when the worker exits, its deferred function removes from the queue exactly
  the PUBLISH messages of QoS "at most once"; every PUBLISH of QoS 1 or 2 and every PUBREL
  stays, in order; the stop barrier \<^verbatim>\<open>publisher.stopped\<close> is then signalled. (In
  \<open>worker_turn\<close> the deferred function runs on every exit of the loop, after a failed write
  as after the shutdown signal.)
\<close>

theorem publishWorker_exit_drains:
  "publisher_stopped s = Suc k \<Longrightarrow>
   publishWorker_deferred s =
     Returned ()
       (s\<lparr>publisher_messages := filter (\<lambda>m. \<not> qos0_publish m) (publisher_messages s),
          publisher_stopped := k\<rparr>)
       (map ListRemove (filter qos0_publish (publisher_messages s)))"
  by (simp add: publishWorker_deferred_def Let_def drain_filter drained_filter)

theorem publishWorker_exit_drains_witness:
  "publishWorker_deferred
     ((newSession ''c'' Map.empty)
        \<lparr>publisher_stopped := 1,
         publisher_messages :=
           [PublishMsg \<lparr>QoS = QosAtMostOnce, Topic = ''t0'', Payload = [], Retain = False,
              Dup = False, PacketID = 0\<rparr>,
            PublishMsg \<lparr>QoS = QosAtLeastOnce, Topic = ''t1'', Payload = [], Retain = False,
              Dup = False, PacketID = 7\<rparr>,
            PubRelMsg 9,
            PublishMsg \<lparr>QoS = QosExactlyOnce, Topic = ''t2'', Payload = [], Retain = False,
              Dup = False, PacketID = 0\<rparr>]\<rparr>)
   = Returned ()
      ((newSession ''c'' Map.empty)
        \<lparr>publisher_stopped := 0,
         publisher_messages :=
           [PublishMsg \<lparr>QoS = QosAtLeastOnce, Topic = ''t1'', Payload = [], Retain = False,
              Dup = False, PacketID = 7\<rparr>,
            PubRelMsg 9,
            PublishMsg \<lparr>QoS = QosExactlyOnce, Topic = ''t2'', Payload = [], Retain = False,
              Dup = False, PacketID = 0\<rparr>]\<rparr>)
      [ListRemove (PublishMsg \<lparr>QoS = QosAtMostOnce, Topic = ''t0'', Payload = [],
         Retain = False, Dup = False, PacketID = 0\<rparr>)]"
  using publishWorker_exit_drains
    [of "(newSession ''c'' Map.empty)
        \<lparr>publisher_stopped := 1,
         publisher_messages :=
           [PublishMsg \<lparr>QoS = QosAtMostOnce, Topic = ''t0'', Payload = [], Retain = False,
              Dup = False, PacketID = 0\<rparr>,
            PublishMsg \<lparr>QoS = QosAtLeastOnce, Topic = ''t1'', Payload = [], Retain = False,
              Dup = False, PacketID = 7\<rparr>,
            PubRelMsg 9,
            PublishMsg \<lparr>QoS = QosExactlyOnce, Topic = ''t2'', Payload = [], Retain = False,
              Dup = False, PacketID = 0\<rparr>]\<rparr>" 0]
  by (simp add: newSession_def)

text \<open>
  In a run, the exit of the loop is followed by the deferred function: the worker is gone
  and the queue is drained.
\<close>

lemma worker_turn_runs_deferred:
  "publishWorker_iteration e (sys_session sys) = (Exited, s1, cs1) \<Longrightarrow>
   publisher_stopped s1 = Suc k \<Longrightarrow>
   worker_turn e sys =
     \<lparr>sys_session =
        s1\<lparr>publisher_messages := filter (\<lambda>m. \<not> qos0_publish m) (publisher_messages s1),
           publisher_stopped := k\<rparr>,
      sys_worker = NoWorker,
      sys_calls = sys_calls sys @ cs1 @
        map ListRemove (filter qos0_publish (publisher_messages s1))\<rparr>"
  by (simp add: worker_turn_def publishWorker_deferred_def Let_def drain_filter
      drained_filter)

subsection \<open>The publish worker: one turn\<close>

lemma register_outbound_cases:
  "register_outbound s (PubRelMsg p) =
     (PubRelMsg p, s\<lparr>ack_pubOut := ackQueue_put (ack_pubOut s) (PubRelMsg p)\<rparr>)"
  "QoS m = QosAtMostOnce \<Longrightarrow> register_outbound s (PublishMsg m) = (PublishMsg m, s)"
  "QoS m \<noteq> QosAtMostOnce \<Longrightarrow> PacketID m \<noteq> 0 \<Longrightarrow>
     register_outbound s (PublishMsg m) =
       (PublishMsg m, s\<lparr>ack_pubOut := ackQueue_put (ack_pubOut s) (PublishMsg m)\<rparr>)"
  "QoS m \<noteq> QosAtMostOnce \<Longrightarrow> PacketID m = 0 \<Longrightarrow>
     register_outbound s (PublishMsg m) =
       (PublishMsg (m\<lparr>PacketID := fst (newPacketID s)\<rparr>),
        (snd (newPacketID s))\<lparr>ack_pubOut :=
           ackQueue_put (ack_pubOut s) (PublishMsg (m\<lparr>PacketID := fst (newPacketID s)\<rparr>))\<rparr>)"
  by (auto simp add: register_outbound_def newPacketID_def Let_def split: QosType.splits)

lemma put_then_ack:
  "ProviderPacketID msg' = ProviderPacketID msg \<Longrightarrow>
   ackQueue_ack (ackQueue_put q msg) msg' = q(ProviderPacketID msg := None)"
  by (auto simp add: ackQueue_ack_def ackQueue_put_def split: option.splits)

lemma rollback_outbound_cases:
  "rollback_outbound s (PubRelMsg p) =
     (PubRelMsg p, s\<lparr>ack_pubOut := ackQueue_ack (ack_pubOut s) (PubRelMsg p)\<rparr>)"
  "QoS m = QosAtMostOnce \<Longrightarrow> rollback_outbound s (PublishMsg m) = (PublishMsg m, s)"
  "QoS m \<noteq> QosAtMostOnce \<Longrightarrow>
     rollback_outbound s (PublishMsg m) =
       (PublishMsg (m\<lparr>Dup := True\<rparr>),
        s\<lparr>ack_pubOut := ackQueue_ack (ack_pubOut s) (PublishMsg (m\<lparr>Dup := True\<rparr>))\<rparr>)"
  by (auto simp add: rollback_outbound_def Let_def split: QosType.splits)

text \<open>The message that a failed turn puts back, and the identifier it was registered under.\<close>

lemma failed_turn:
  assumes "\<not> isDone s" and "publisher_messages s = msg # rest"
  shows "\<exists>msg' s'.
     publishWorker_iteration (Some e) s =
       (Exited, s', [ListRemoveFront msg, ConnWriteMessage (fst (register_outbound (s\<lparr>publisher_messages := rest\<rparr>) msg)), ListPushBack msg']) \<and>
     publisher_messages s' = rest @ [msg'] \<and>
     (case msg of
        PubRelMsg p \<Rightarrow> msg' = msg \<and> ack_pubOut s' = (ack_pubOut s)(p := None)
      | PublishMsg m \<Rightarrow>
          (if QoS m = QosAtMostOnce then msg' = msg \<and> ack_pubOut s' = ack_pubOut s
           else msg' = PublishMsg (m\<lparr>PacketID := ProviderPacketID msg', Dup := True\<rparr>) \<and>
                ack_pubOut s' = (ack_pubOut s)(ProviderPacketID msg' := None) \<and>
                (PacketID m \<noteq> 0 \<longrightarrow> ProviderPacketID msg' = PacketID m)))"
proof (cases msg)
  case (PubRelMsg p)
  with assms show ?thesis
    by (simp add: publishWorker_iteration_def register_outbound_cases rollback_outbound_cases put_then_ack)
next
  case (PublishMsg m)
  show ?thesis
  proof (cases "QoS m = QosAtMostOnce")
    case True
    with assms PublishMsg show ?thesis
      by (simp add: publishWorker_iteration_def register_outbound_cases rollback_outbound_cases)
  next
    case q: False
    show ?thesis
    proof (cases "PacketID m = 0")
      case True
      with assms PublishMsg q show ?thesis
        by (simp add: publishWorker_iteration_def register_outbound_cases rollback_outbound_cases put_then_ack newPacketID_def Let_def)
    next
      case False
      with assms PublishMsg q show ?thesis
        by (simp add: publishWorker_iteration_def register_outbound_cases rollback_outbound_cases put_then_ack)
    qed
  qed
qed

lemma publishWorker_deferred_not_Blocked: "publishWorker_deferred s \<noteq> Blocked"
  by (simp add: publishWorker_deferred_def Let_def)

lemma worker_turn_Exited:
  "publishWorker_iteration e (sys_session sys) = (Exited, s1, cs1) \<Longrightarrow>
   sys_worker (worker_turn e sys) \<noteq> WorkerRunning"
  using publishWorker_deferred_not_Blocked [of s1]
  by (cases "publishWorker_deferred s1") (simp_all add: worker_turn_def)

text \<open>
  Claim C5: when the write of the dequeued message fails, the registration with the
  outbound ack tracker made in this turn is removed again (a PUBLISH of QoS "at most
  once" was never registered), the duplicate flag is set on a PUBLISH of QoS 1 or 2, the
  message is pushed back to the tail of the queue, and the loop ends: this worker is gone
  and takes no further turn.
\<close>

theorem publishWorker_write_failure:
  assumes "\<not> isDone s" and "publisher_messages s = msg # rest"
  shows "\<exists>msg' s' cs.
     publishWorker_iteration (Some e) s = (Exited, s', cs) \<and>
     dequeued cs = [msg] \<and> pushed cs = [msg'] \<and>
     publisher_messages s' = rest @ [msg'] \<and>
     (case msg of
        PubRelMsg p \<Rightarrow> msg' = msg \<and> ack_pubOut s' = (ack_pubOut s)(p := None)
      | PublishMsg m \<Rightarrow>
          (if QoS m = QosAtMostOnce then msg' = msg \<and> ack_pubOut s' = ack_pubOut s
           else msg' = PublishMsg (m\<lparr>PacketID := ProviderPacketID msg', Dup := True\<rparr>) \<and>
                ack_pubOut s' = (ack_pubOut s)(ProviderPacketID msg' := None) \<and>
                (PacketID m \<noteq> 0 \<longrightarrow> ProviderPacketID msg' = PacketID m))) \<and>
     sys_worker (worker_turn (Some e)
        \<lparr>sys_session = s, sys_worker = WorkerRunning, sys_calls = cs0\<rparr>) \<noteq> WorkerRunning \<and>
     step (worker_turn (Some e)
        \<lparr>sys_session = s, sys_worker = WorkerRunning, sys_calls = cs0\<rparr>) (EvWorker e')
       = worker_turn (Some e) \<lparr>sys_session = s, sys_worker = WorkerRunning, sys_calls = cs0\<rparr>"
proof -
  let ?sys = "\<lparr>sys_session = s, sys_worker = WorkerRunning, sys_calls = cs0\<rparr>"
  from failed_turn [OF assms, of e] obtain msg' s' where
    it: "publishWorker_iteration (Some e) s =
       (Exited, s', [ListRemoveFront msg, ConnWriteMessage (fst (register_outbound (s\<lparr>publisher_messages := rest\<rparr>) msg)), ListPushBack msg'])"
    and rest: "publisher_messages s' = rest @ [msg']"
     "(case msg of
        PubRelMsg p \<Rightarrow> msg' = msg \<and> ack_pubOut s' = (ack_pubOut s)(p := None)
      | PublishMsg m \<Rightarrow>
          (if QoS m = QosAtMostOnce then msg' = msg \<and> ack_pubOut s' = ack_pubOut s
           else msg' = PublishMsg (m\<lparr>PacketID := ProviderPacketID msg', Dup := True\<rparr>) \<and>
                ack_pubOut s' = (ack_pubOut s)(ProviderPacketID msg' := None) \<and>
                (PacketID m \<noteq> 0 \<longrightarrow> ProviderPacketID msg' = PacketID m)))"
    by blast
  have w: "sys_worker (worker_turn (Some e) ?sys) \<noteq> WorkerRunning"
    using worker_turn_Exited [of "Some e" ?sys] it by simp
  then have "step (worker_turn (Some e) ?sys) (EvWorker e') = worker_turn (Some e) ?sys"
    by (cases "sys_worker (worker_turn (Some e) ?sys)") simp_all
  with it rest w show ?thesis by simp
qed

theorem publishWorker_write_failure_witness:
  "\<not> isDone ((newSession ''c'' Map.empty)
       \<lparr>publisher_quit := ChanOpen, publisher_stopped := 1,
        publisher_messages :=
          [PublishMsg \<lparr>QoS = QosAtLeastOnce, Topic = ''a/b'', Payload = [104, 105],
             Retain = False, Dup = False, PacketID = 0\<rparr>,
           PubRelMsg 9]\<rparr>) \<and>
   publishWorker_iteration (Some (ConnectionError ''EOF''))
     ((newSession ''c'' Map.empty)
       \<lparr>publisher_quit := ChanOpen, publisher_stopped := 1,
        publisher_messages :=
          [PublishMsg \<lparr>QoS = QosAtLeastOnce, Topic = ''a/b'', Payload = [104, 105],
             Retain = False, Dup = False, PacketID = 0\<rparr>,
           PubRelMsg 9]\<rparr>)
   = (Exited,
      (newSession ''c'' Map.empty)
       \<lparr>publisher_quit := ChanOpen, publisher_stopped := 1,
        publisher_messages :=
          [PubRelMsg 9,
           PublishMsg \<lparr>QoS = QosAtLeastOnce, Topic = ''a/b'', Payload = [104, 105],
             Retain = False, Dup = True, PacketID = 1\<rparr>],
        packetID := 1\<rparr>,
      [ListRemoveFront (PublishMsg \<lparr>QoS = QosAtLeastOnce, Topic = ''a/b'',
         Payload = [104, 105], Retain = False, Dup = False, PacketID = 0\<rparr>),
       ConnWriteMessage (PublishMsg \<lparr>QoS = QosAtLeastOnce, Topic = ''a/b'',
         Payload = [104, 105], Retain = False, Dup = False, PacketID = 1\<rparr>),
       ListPushBack (PublishMsg \<lparr>QoS = QosAtLeastOnce, Topic = ''a/b'',
         Payload = [104, 105], Retain = False, Dup = True, PacketID = 1\<rparr>)]) \<and>
   publishWorker_iteration (Some (ConnectionError ''EOF''))
     ((newSession ''c'' Map.empty)
       \<lparr>publisher_quit := ChanOpen, publisher_stopped := 1,
        publisher_messages :=
          [PublishMsg \<lparr>QoS = QosExactlyOnce, Topic = ''x'', Payload = [],
             Retain = False, Dup = False, PacketID = 7\<rparr>]\<rparr>)
   = (Exited,
      (newSession ''c'' Map.empty)
       \<lparr>publisher_quit := ChanOpen, publisher_stopped := 1,
        publisher_messages :=
          [PublishMsg \<lparr>QoS = QosExactlyOnce, Topic = ''x'', Payload = [],
             Retain = False, Dup = True, PacketID = 7\<rparr>]\<rparr>,
      [ListRemoveFront (PublishMsg \<lparr>QoS = QosExactlyOnce, Topic = ''x'', Payload = [],
         Retain = False, Dup = False, PacketID = 7\<rparr>),
       ConnWriteMessage (PublishMsg \<lparr>QoS = QosExactlyOnce, Topic = ''x'', Payload = [],
         Retain = False, Dup = False, PacketID = 7\<rparr>),
       ListPushBack (PublishMsg \<lparr>QoS = QosExactlyOnce, Topic = ''x'', Payload = [],
         Retain = False, Dup = True, PacketID = 7\<rparr>)])"
  using publishWorker_write_failure
    [of "(newSession ''c'' Map.empty)
       \<lparr>publisher_quit := ChanOpen, publisher_stopped := 1,
        publisher_messages :=
          [PublishMsg \<lparr>QoS = QosAtLeastOnce, Topic = ''a/b'', Payload = [104, 105],
             Retain = False, Dup = False, PacketID = 0\<rparr>,
           PubRelMsg 9]\<rparr>"
        "PublishMsg \<lparr>QoS = QosAtLeastOnce, Topic = ''a/b'', Payload = [104, 105],
             Retain = False, Dup = False, PacketID = 0\<rparr>"
        "[PubRelMsg 9]" "ConnectionError ''EOF''" "[]" None]
    publishWorker_write_failure
    [of "(newSession ''c'' Map.empty)
       \<lparr>publisher_quit := ChanOpen, publisher_stopped := 1,
        publisher_messages :=
          [PublishMsg \<lparr>QoS = QosExactlyOnce, Topic = ''x'', Payload = [],
             Retain = False, Dup = False, PacketID = 7\<rparr>]\<rparr>"
        "PublishMsg \<lparr>QoS = QosExactlyOnce, Topic = ''x'', Payload = [],
             Retain = False, Dup = False, PacketID = 7\<rparr>"
        "[]" "ConnectionError ''EOF''" "[]" None]
  by (simp add: isDone_def newSession_def publishWorker_iteration_def register_outbound_def
      rollback_outbound_def newPacketID_def ackQueue_put_def ackQueue_ack_def Let_def)

text \<open>
  A message that has an identifier other than 0 keeps it, and the counter is not touched.
\<close>

lemma register_outbound_keeps_identifier:
  "PacketID m \<noteq> 0 \<Longrightarrow>
   fst (register_outbound s (PublishMsg m)) = PublishMsg m \<and>
   packetID (snd (register_outbound s (PublishMsg m))) = packetID s"
  by (cases "QoS m") (simp_all add: register_outbound_def)

text \<open>
  Claim C6 (fails at the wrap of the counter): a packet identifier is assigned to an
  outbound PUBLISH of QoS 1 or 2 once, at its first dequeue, and never again. With the
  counter at 65535 the first dequeue assigns \<^verbatim>\<open>newPacketID()\<close> = 0; the write fails and
  the message is requeued; the next worker finds the identifier 0 and assigns again. The
  message is written with identifier 0, then with identifier 1, and the counter has
  advanced twice.
\<close>

theorem publishWorker_assigns_twice_at_wrap:
  "written (sys_calls (run [EvWorker (Some (ConnectionError ''EOF'')), EvSpawn, EvWorker None]
      \<lparr>sys_session = (newSession ''c'' Map.empty)
         \<lparr>publisher_quit := ChanOpen, publisher_stopped := 1, packetID := 65535,
          publisher_messages :=
            [PublishMsg \<lparr>QoS = QosAtLeastOnce, Topic = ''a/b'', Payload = [104, 105],
               Retain = False, Dup = False, PacketID = 0\<rparr>]\<rparr>,
       sys_worker = WorkerRunning, sys_calls = []\<rparr>))
   = [PublishMsg \<lparr>QoS = QosAtLeastOnce, Topic = ''a/b'', Payload = [104, 105],
        Retain = False, Dup = False, PacketID = 0\<rparr>,
      PublishMsg \<lparr>QoS = QosAtLeastOnce, Topic = ''a/b'', Payload = [104, 105],
        Retain = False, Dup = True, PacketID = 1\<rparr>] \<and>
   packetID (sys_session (run [EvWorker (Some (ConnectionError ''EOF'')), EvSpawn, EvWorker None]
      \<lparr>sys_session = (newSession ''c'' Map.empty)
         \<lparr>publisher_quit := ChanOpen, publisher_stopped := 1, packetID := 65535,
          publisher_messages :=
            [PublishMsg \<lparr>QoS = QosAtLeastOnce, Topic = ''a/b'', Payload = [104, 105],
               Retain = False, Dup = False, PacketID = 0\<rparr>]\<rparr>,
       sys_worker = WorkerRunning, sys_calls = []\<rparr>)) = 65537"
  by (simp add: run_def worker_turn_def isDone_def newSession_def publishWorker_iteration_def
      publishWorker_deferred_def register_outbound_def
      rollback_outbound_def newPacketID_def ackQueue_put_def ackQueue_ack_def Let_def)

subsection \<open>Order of transmission\<close>

lemma pushed_append: "pushed (xs @ ys) = pushed xs @ pushed ys"
  by (induction xs rule: pushed.induct) simp_all

lemma dequeued_append: "dequeued (xs @ ys) = dequeued xs @ dequeued ys"
  by (induction xs rule: dequeued.induct) simp_all

lemma written_append: "written (xs @ ys) = written xs @ written ys"
  by (induction xs rule: written.induct) simp_all

lemma removed_append: "removed (xs @ ys) = removed xs @ removed ys"
  by (induction xs rule: removed.induct) simp_all

lemma enqueued_append: "enqueued (xs @ ys) = enqueued xs @ enqueued ys"
  by (induction xs rule: enqueued.induct) simp_all

lemma pushed_map_ListPushBack: "pushed (map ListPushBack xs) = xs"
  by (induction xs) simp_all

lemma dequeued_map_ListPushBack: "dequeued (map ListPushBack xs) = []"
  by (induction xs) simp_all

lemma written_map_ListPushBack: "written (map ListPushBack xs) = []"
  by (induction xs) simp_all

lemma removed_map_ListPushBack: "removed (map ListPushBack xs) = []"
  by (induction xs) simp_all

lemma pushed_map_ListRemove: "pushed (map ListRemove xs) = []"
  by (induction xs) simp_all

lemma dequeued_map_ListRemove: "dequeued (map ListRemove xs) = []"
  by (induction xs) simp_all

lemma written_map_ListRemove: "written (map ListRemove xs) = []"
  by (induction xs) simp_all

lemma removed_map_ListRemove: "removed (map ListRemove xs) = xs"
  by (induction xs) simp_all

lemma queue_step_refl: "queue_step q [] q"
  by (simp add: queue_step_def)

lemma queue_step_trans:
  assumes "queue_step q0 cs1 q1" and "queue_step q1 cs2 q2"
  shows "queue_step q0 (cs1 @ cs2) q2"
proof -
  have a: "list_all2 written_for (dequeued (cs1 @ cs2)) (written (cs1 @ cs2))"
    using assms by (simp add: queue_step_def dequeued_append written_append list_all2_appendI)
  have s2: "subseq (dequeued cs2 @ q2) (q1 @ pushed cs2)"
    using assms(2) by (simp add: queue_step_def)
  have s1: "subseq (dequeued cs1 @ q1) (q0 @ pushed cs1)"
    using assms(1) by (simp add: queue_step_def)
  have "subseq (dequeued cs1 @ (dequeued cs2 @ q2)) (dequeued cs1 @ (q1 @ pushed cs2))"
    using s2 by (simp only: subseq_append')
  moreover have "subseq ((dequeued cs1 @ q1) @ pushed cs2) ((q0 @ pushed cs1) @ pushed cs2)"
    using s1 by (simp only: subseq_append)
  ultimately have "subseq (dequeued cs1 @ (dequeued cs2 @ q2)) ((q0 @ pushed cs1) @ pushed cs2)"
    using subseq_order.trans by fastforce
  then have b: "subseq (dequeued (cs1 @ cs2) @ q2) (q0 @ pushed (cs1 @ cs2))"
    by (simp add: dequeued_append pushed_append)
  have c: "removed (cs1 @ cs2) = [] \<longrightarrow> dequeued (cs1 @ cs2) @ q2 = q0 @ pushed (cs1 @ cs2)"
  proof
    assume "removed (cs1 @ cs2) = []"
    then have "removed cs1 = []" "removed cs2 = []" by (simp_all add: removed_append)
    with assms have e1: "dequeued cs1 @ q1 = q0 @ pushed cs1"
      and e2: "dequeued cs2 @ q2 = q1 @ pushed cs2"
      by (simp_all add: queue_step_def)
    have "dequeued (cs1 @ cs2) @ q2 = dequeued cs1 @ (dequeued cs2 @ q2)"
      by (simp add: dequeued_append)
    also have "\<dots> = (dequeued cs1 @ q1) @ pushed cs2" using e2 by simp
    also have "\<dots> = q0 @ pushed (cs1 @ cs2)" using e1 by (simp add: pushed_append)
    finally show "dequeued (cs1 @ cs2) @ q2 = q0 @ pushed (cs1 @ cs2)" .
  qed
  from a b c show ?thesis by (simp add: queue_step_def)
qed

lemma register_outbound_props:
  assumes "register_outbound s msg = (msg1, s1)"
  shows "publisher_messages s1 = publisher_messages s"
    and "publisher_quit s1 = publisher_quit s"
    and "written_for msg msg1"
proof -
  show "publisher_messages s1 = publisher_messages s"
    using assms
    by (auto simp add: register_outbound_def newPacketID_def Let_def
        split: Provider.splits QosType.splits if_splits)
  show "publisher_quit s1 = publisher_quit s"
    using assms
    by (auto simp add: register_outbound_def newPacketID_def Let_def
        split: Provider.splits QosType.splits if_splits)
  show "written_for msg msg1"
    using assms
    by (auto simp add: register_outbound_def newPacketID_def Let_def
        split: Provider.splits QosType.splits if_splits)
qed

lemma rollback_outbound_props:
  assumes "rollback_outbound s msg = (msg2, s2)"
  shows "publisher_messages s2 = publisher_messages s"
    and "publisher_quit s2 = publisher_quit s"
  using assms
  by (auto simp add: rollback_outbound_def Let_def split: Provider.splits QosType.splits)

lemma iteration_done: "isDone s \<Longrightarrow> publishWorker_iteration e s = (Exited, s, [])"
  by (simp add: publishWorker_iteration_def)

lemma iteration_wait:
  "\<not> isDone s \<Longrightarrow> publisher_messages s = [] \<Longrightarrow>
   publishWorker_iteration e s = (Waiting, s, [])"
  by (simp add: publishWorker_iteration_def)

lemma iteration_ok:
  "\<not> isDone s \<Longrightarrow> publisher_messages s = msg # rest \<Longrightarrow>
   register_outbound (s\<lparr>publisher_messages := rest\<rparr>) msg = (msg1, sa) \<Longrightarrow>
   publishWorker_iteration None s =
     (Looping, sa, [ListRemoveFront msg, ConnWriteMessage msg1])"
  by (simp add: publishWorker_iteration_def)

lemma iteration_fail:
  "\<not> isDone s \<Longrightarrow> publisher_messages s = msg # rest \<Longrightarrow>
   register_outbound (s\<lparr>publisher_messages := rest\<rparr>) msg = (msg1, sa) \<Longrightarrow>
   rollback_outbound sa msg1 = (msg2, sb) \<Longrightarrow>
   publishWorker_iteration (Some err) s =
     (Exited, sb\<lparr>publisher_messages := publisher_messages sb @ [msg2]\<rparr>,
      [ListRemoveFront msg, ConnWriteMessage msg1, ListPushBack msg2])"
  by (simp add: publishWorker_iteration_def)

lemma iteration_queue_step:
  assumes "publishWorker_iteration e s = (st, s1, cs)"
  shows "queue_step (publisher_messages s) cs (publisher_messages s1) \<and>
         publisher_quit s1 = publisher_quit s"
proof (cases "isDone s")
  case True
  with assms iteration_done [OF True, of e] show ?thesis
    by (simp add: queue_step_def)
next
  case nd: False
  show ?thesis
  proof (cases "publisher_messages s")
    case Nil
    with assms iteration_wait [OF nd Nil, of e] show ?thesis
      by (simp add: queue_step_def)
  next
    case (Cons msg rest)
    obtain msg1 sa where r: "register_outbound (s\<lparr>publisher_messages := rest\<rparr>) msg = (msg1, sa)"
      by (cases "register_outbound (s\<lparr>publisher_messages := rest\<rparr>) msg") auto
    from register_outbound_props [OF r]
    have sa: "publisher_messages sa = rest" "publisher_quit sa = publisher_quit s"
      and w: "written_for msg msg1" by simp_all
    show ?thesis
    proof (cases e)
      case None
      with assms iteration_ok [OF nd Cons r] sa w Cons show ?thesis
        by (auto simp add: queue_step_def)
    next
      case (Some err)
      obtain msg2 sb where b: "rollback_outbound sa msg1 = (msg2, sb)"
        by (cases "rollback_outbound sa msg1") auto
      from rollback_outbound_props [OF b] sa
      have "publisher_messages sb = rest" "publisher_quit sb = publisher_quit s" by simp_all
      with assms iteration_fail [OF nd Cons r b, of err] Some w Cons show ?thesis
        by (auto simp add: queue_step_def)
    qed
  qed
qed

lemma drained_Nil_drain: "drained q = [] \<Longrightarrow> drain q = q"
  by (induction q rule: drain.induct) (simp_all split: if_splits)

lemma deferred_queue_step:
  assumes "publishWorker_deferred s = Returned u s2 cs \<or> publishWorker_deferred s = Panicked s2 cs"
  shows "queue_step (publisher_messages s) cs (publisher_messages s2)"
    and "publisher_quit s2 = publisher_quit s"
  using assms
  by (auto simp add: publishWorker_deferred_def Let_def queue_step_def drain_filter
      dequeued_map_ListRemove written_map_ListRemove pushed_map_ListRemove
      removed_map_ListRemove drained_Nil_drain [unfolded drain_filter]
      split: if_splits)

lemma worker_turn_queue_step:
  "\<exists>cs. sys_calls (worker_turn e sys) = sys_calls sys @ cs \<and>
        queue_step (publisher_messages (sys_session sys)) cs
          (publisher_messages (sys_session (worker_turn e sys)))"
proof -
  obtain st s1 cs1 where it: "publishWorker_iteration e (sys_session sys) = (st, s1, cs1)"
    by (cases "publishWorker_iteration e (sys_session sys)") auto
  from iteration_queue_step [OF it]
  have q1: "queue_step (publisher_messages (sys_session sys)) cs1 (publisher_messages s1)"
    by simp
  show ?thesis
  proof (cases "st = Exited")
    case False
    with it have "worker_turn e sys =
        \<lparr>sys_session = s1, sys_worker = WorkerRunning, sys_calls = sys_calls sys @ cs1\<rparr>"
      by (cases st) (simp_all add: worker_turn_def)
    with q1 show ?thesis by simp
  next
    case True
    show ?thesis
    proof (cases "publishWorker_deferred s1")
      case (Returned u s2 cs2)
      with deferred_queue_step(1) [of s1 u s2 cs2]
      have "queue_step (publisher_messages s1) cs2 (publisher_messages s2)" by simp
      with q1 have "queue_step (publisher_messages (sys_session sys)) (cs1 @ cs2)
          (publisher_messages s2)"
        by (rule queue_step_trans)
      with it True Returned show ?thesis by (simp add: worker_turn_def)
    next
      case Blocked
      with publishWorker_deferred_not_Blocked [of s1] show ?thesis by simp
    next
      case (Panicked s2 cs2)
      with deferred_queue_step(1) [of s1 "()" s2 cs2]
      have "queue_step (publisher_messages s1) cs2 (publisher_messages s2)" by simp
      with q1 have "queue_step (publisher_messages (sys_session sys)) (cs1 @ cs2)
          (publisher_messages s2)"
        by (rule queue_step_trans)
      with it True Panicked show ?thesis by (simp add: worker_turn_def)
    qed
  qed
qed

lemma onSubscribedPublish_queue_step:
  "onSubscribedPublish s msg = (r, s1, cs) \<Longrightarrow>
   queue_step (publisher_messages s) cs (publisher_messages s1)"
  by (auto simp add: onSubscribedPublish_def Let_def queue_step_def split: if_splits)

lemma restore_queue_step:
  "restore s ms = (s1, cs) \<Longrightarrow> queue_step (publisher_messages s) cs (publisher_messages s1)"
  by (auto simp add: restore_def queue_step_def pushed_map_ListPushBack
      dequeued_map_ListPushBack written_map_ListPushBack split: option.splits)

lemma step_queue_step:
  "\<exists>cs. sys_calls (step sys ev) = sys_calls sys @ cs \<and>
        queue_step (publisher_messages (sys_session sys)) cs
          (publisher_messages (sys_session (step sys ev)))"
proof (cases "sys_worker sys = ProcessDown")
  case True
  then show ?thesis by (simp add: queue_step_refl)
next
  case up: False
  show ?thesis
  proof (cases ev)
    case (EvSubscribedPublish msg)
    obtain r s1 cs where o: "onSubscribedPublish (sys_session sys) msg = (r, s1, cs)"
      by (cases "onSubscribedPublish (sys_session sys) msg") auto
    with up EvSubscribedPublish onSubscribedPublish_queue_step [OF o] show ?thesis
      by (cases "sys_worker sys") simp_all
  next
    case (EvRestore ms)
    obtain s1 cs where o: "restore (sys_session sys) ms = (s1, cs)"
      by (cases "restore (sys_session sys) ms") auto
    with up EvRestore restore_queue_step [OF o] show ?thesis
      by (cases "sys_worker sys") simp_all
  next
    case (EvWorker e)
    with up worker_turn_queue_step [of e sys] show ?thesis
      by (cases "sys_worker sys") (simp_all add: queue_step_refl)
  next
    case EvSpawn
    with up show ?thesis
      by (cases "sys_worker sys") (simp_all add: queue_step_def)
  qed
qed

lemma run_snoc: "run (evs @ [ev]) sys = step (run evs sys) ev"
  by (simp add: run_def)

lemma run_queue_step:
  "\<exists>cs. sys_calls (run evs sys) = sys_calls sys @ cs \<and>
        queue_step (publisher_messages (sys_session sys)) cs
          (publisher_messages (sys_session (run evs sys)))"
proof (induction evs rule: rev_induct)
  case Nil
  then show ?case by (simp add: run_def queue_step_refl)
next
  case (snoc ev evs)
  then obtain cs1 where c1: "sys_calls (run evs sys) = sys_calls sys @ cs1"
    and q1: "queue_step (publisher_messages (sys_session sys)) cs1
          (publisher_messages (sys_session (run evs sys)))" by blast
  from step_queue_step [of "run evs sys" ev] obtain cs2 where
    c2: "sys_calls (step (run evs sys) ev) = sys_calls (run evs sys) @ cs2"
    and q2: "queue_step (publisher_messages (sys_session (run evs sys))) cs2
          (publisher_messages (sys_session (step (run evs sys) ev)))" by blast
  from queue_step_trans [OF q1 q2] c1 c2 show ?case
    by (auto simp add: run_snoc)
qed

text \<open>Runs of a session whose shutdown signal is not closed and where no write fails.\<close>

lemma worker_turn_no_failure:
  assumes "publisher_quit (sys_session sys) \<noteq> ChanClosed"
  shows "\<exists>cs. sys_calls (worker_turn None sys) = sys_calls sys @ cs \<and> pushed cs = [] \<and>
           removed cs = [] \<and> sys_worker (worker_turn None sys) = WorkerRunning \<and>
           publisher_quit (sys_session (worker_turn None sys)) = publisher_quit (sys_session sys)"
proof -
  let ?s = "sys_session sys"
  from assms have nd: "\<not> isDone ?s" by (simp add: isDone_def)
  show ?thesis
  proof (cases "publisher_messages ?s")
    case Nil
    with iteration_wait [OF nd Nil, of None] show ?thesis
      by (simp add: worker_turn_def)
  next
    case (Cons msg rest)
    obtain msg1 sa where r: "register_outbound (?s\<lparr>publisher_messages := rest\<rparr>) msg = (msg1, sa)"
      by (cases "register_outbound (?s\<lparr>publisher_messages := rest\<rparr>) msg") auto
    from register_outbound_props(2) [OF r] iteration_ok [OF nd Cons r] show ?thesis
      by (simp add: worker_turn_def)
  qed
qed

lemma step_no_failure:
  assumes "sys_worker sys \<noteq> ProcessDown"
    and "publisher_quit (sys_session sys) \<noteq> ChanClosed"
    and "\<forall>e. ev \<noteq> EvWorker (Some e)"
  shows "\<exists>cs. sys_calls (step sys ev) = sys_calls sys @ cs \<and> pushed cs = enqueued [ev] \<and>
           removed cs = [] \<and> sys_worker (step sys ev) \<noteq> ProcessDown \<and>
           publisher_quit (sys_session (step sys ev)) \<noteq> ChanClosed"
proof (cases ev)
  case (EvSubscribedPublish msg)
  with assms show ?thesis
    by (cases "sys_worker sys") (simp_all add: onSubscribedPublish_def NewPublishMessage_def Let_def)
next
  case (EvRestore ms)
  with assms show ?thesis
    by (cases "sys_worker sys"; cases ms)
      (simp_all add: restore_def pushed_map_ListPushBack removed_map_ListPushBack)
next
  case (EvWorker e)
  with assms have e: "e = None" by (cases e) simp_all
  from worker_turn_no_failure [OF assms(2)] assms(1,2) EvWorker e show ?thesis
    by (cases "sys_worker sys") auto
next
  case EvSpawn
  with assms show ?thesis
    by (cases "sys_worker sys") simp_all
qed

lemma run_no_failure:
  assumes "sys_worker sys \<noteq> ProcessDown"
    and "publisher_quit (sys_session sys) \<noteq> ChanClosed"
    and "\<forall>e. EvWorker (Some e) \<notin> set evs"
  shows "\<exists>cs. sys_calls (run evs sys) = sys_calls sys @ cs \<and> pushed cs = enqueued evs \<and>
           removed cs = [] \<and> sys_worker (run evs sys) \<noteq> ProcessDown \<and>
           publisher_quit (sys_session (run evs sys)) \<noteq> ChanClosed"
  using assms(3)
proof (induction evs rule: rev_induct)
  case Nil
  with assms show ?case by (simp add: run_def)
next
  case (snoc ev evs)
  then obtain cs1 where c1: "sys_calls (run evs sys) = sys_calls sys @ cs1"
    "pushed cs1 = enqueued evs" "removed cs1 = []"
    and inv: "sys_worker (run evs sys) \<noteq> ProcessDown"
      "publisher_quit (sys_session (run evs sys)) \<noteq> ChanClosed"
    by auto
  from snoc.prems have "\<forall>e. ev \<noteq> EvWorker (Some e)" by auto
  from step_no_failure [OF inv this] obtain cs2 where
    "sys_calls (step (run evs sys) ev) = sys_calls (run evs sys) @ cs2"
    "pushed cs2 = enqueued [ev]" "removed cs2 = []"
    "sys_worker (step (run evs sys) ev) \<noteq> ProcessDown"
    "publisher_quit (sys_session (step (run evs sys) ev)) \<noteq> ChanClosed"
    by blast
  with c1 show ?case
    by (simp add: run_snoc pushed_append removed_append enqueued_append)
qed

text \<open>
  Claim C7: the worker hands messages to \<^verbatim>\<open>writeMessage\<close> in the order in which they
  were appended to the queue. For every run of producer calls and worker turns, every
  dequeued message is written, in dequeue order; the dequeued messages followed by the
  queue are, in this order, among the initial queue followed by the appended messages,
  where a message whose write failed is appended again at the tail, behind those
  enqueued in the meantime; they are exactly those unless the drain of an exiting worker
  removed messages; and while the shutdown signal is not closed and no write fails they
  are exactly the initial queue followed by the messages the producers enqueued.
\<close>

theorem publish_order:
  assumes "sys_calls sys = []"
  shows "list_all2 written_for (dequeued (sys_calls (run evs sys)))
           (written (sys_calls (run evs sys))) \<and>
         subseq (dequeued (sys_calls (run evs sys)) @
                 publisher_messages (sys_session (run evs sys)))
           (publisher_messages (sys_session sys) @ pushed (sys_calls (run evs sys))) \<and>
         (removed (sys_calls (run evs sys)) = [] \<longrightarrow>
            dequeued (sys_calls (run evs sys)) @
              publisher_messages (sys_session (run evs sys)) =
            publisher_messages (sys_session sys) @ pushed (sys_calls (run evs sys))) \<and>
         (sys_worker sys \<noteq> ProcessDown \<and> publisher_quit (sys_session sys) \<noteq> ChanClosed \<and>
          (\<forall>e. EvWorker (Some e) \<notin> set evs) \<longrightarrow>
            dequeued (sys_calls (run evs sys)) @
              publisher_messages (sys_session (run evs sys)) =
            publisher_messages (sys_session sys) @ enqueued evs)"
proof -
  from run_queue_step [of evs sys] assms
  have q: "queue_step (publisher_messages (sys_session sys)) (sys_calls (run evs sys))
          (publisher_messages (sys_session (run evs sys)))"
    by auto
  have "dequeued (sys_calls (run evs sys)) @ publisher_messages (sys_session (run evs sys)) =
        publisher_messages (sys_session sys) @ enqueued evs"
    if "sys_worker sys \<noteq> ProcessDown" "publisher_quit (sys_session sys) \<noteq> ChanClosed"
      "\<forall>e. EvWorker (Some e) \<notin> set evs"
    using run_no_failure [OF that] assms q by (auto simp add: queue_step_def)
  with q show ?thesis
    by (simp add: queue_step_def)
qed

theorem publish_order_witness:
  "sys_calls
     \<lparr>sys_session = (newSession ''c'' Map.empty)
        \<lparr>publisher_quit := ChanOpen, publisher_stopped := 1\<rparr>,
      sys_worker = WorkerRunning, sys_calls = []\<rparr> = [] \<and>
   written (sys_calls (run
     [EvSubscribedPublish \<lparr>QoS = QosAtLeastOnce, Topic = ''a'', Payload = [1], Retain = True, Dup = True, PacketID = 0\<rparr>,
      EvSubscribedPublish \<lparr>QoS = QosExactlyOnce, Topic = ''b'', Payload = [2], Retain = False, Dup = False, PacketID = 0\<rparr>,
      EvWorker (Some (ConnectionError ''EOF'')),
      EvSubscribedPublish \<lparr>QoS = QosAtMostOnce, Topic = ''c'', Payload = [3], Retain = False, Dup = False, PacketID = 0\<rparr>,
      EvSpawn, EvWorker None, EvWorker None, EvWorker None]
     \<lparr>sys_session = (newSession ''c'' Map.empty)
        \<lparr>publisher_quit := ChanOpen, publisher_stopped := 1\<rparr>,
      sys_worker = WorkerRunning, sys_calls = []\<rparr>))
   = [PublishMsg \<lparr>QoS = QosAtLeastOnce, Topic = ''a'', Payload = [1], Retain = False, Dup = False, PacketID = 1\<rparr>,
      PublishMsg \<lparr>QoS = QosExactlyOnce, Topic = ''b'', Payload = [2], Retain = False, Dup = False, PacketID = 2\<rparr>,
      PublishMsg \<lparr>QoS = QosAtLeastOnce, Topic = ''a'', Payload = [1], Retain = False, Dup = True, PacketID = 1\<rparr>,
      PublishMsg \<lparr>QoS = QosAtMostOnce, Topic = ''c'', Payload = [3], Retain = False, Dup = False, PacketID = 0\<rparr>] \<and>
   removed (sys_calls (run
     [EvSubscribedPublish \<lparr>QoS = QosAtLeastOnce, Topic = ''a'', Payload = [1], Retain = True, Dup = True, PacketID = 0\<rparr>,
      EvSubscribedPublish \<lparr>QoS = QosExactlyOnce, Topic = ''b'', Payload = [2], Retain = False, Dup = False, PacketID = 0\<rparr>,
      EvWorker (Some (ConnectionError ''EOF'')),
      EvSubscribedPublish \<lparr>QoS = QosAtMostOnce, Topic = ''c'', Payload = [3], Retain = False, Dup = False, PacketID = 0\<rparr>,
      EvSpawn, EvWorker None, EvWorker None, EvWorker None]
     \<lparr>sys_session = (newSession ''c'' Map.empty)
        \<lparr>publisher_quit := ChanOpen, publisher_stopped := 1\<rparr>,
      sys_worker = WorkerRunning, sys_calls = []\<rparr>)) = [] \<and>
   dequeued (sys_calls (run
     [EvSubscribedPublish \<lparr>QoS = QosAtLeastOnce, Topic = ''a'', Payload = [1], Retain = True, Dup = True, PacketID = 0\<rparr>,
      EvSubscribedPublish \<lparr>QoS = QosExactlyOnce, Topic = ''b'', Payload = [2], Retain = False, Dup = False, PacketID = 0\<rparr>,
      EvWorker (Some (ConnectionError ''EOF'')),
      EvSubscribedPublish \<lparr>QoS = QosAtMostOnce, Topic = ''c'', Payload = [3], Retain = False, Dup = False, PacketID = 0\<rparr>,
      EvSpawn, EvWorker None, EvWorker None, EvWorker None]
     \<lparr>sys_session = (newSession ''c'' Map.empty)
        \<lparr>publisher_quit := ChanOpen, publisher_stopped := 1\<rparr>,
      sys_worker = WorkerRunning, sys_calls = []\<rparr>)) @
   publisher_messages (sys_session (run
     [EvSubscribedPublish \<lparr>QoS = QosAtLeastOnce, Topic = ''a'', Payload = [1], Retain = True, Dup = True, PacketID = 0\<rparr>,
      EvSubscribedPublish \<lparr>QoS = QosExactlyOnce, Topic = ''b'', Payload = [2], Retain = False, Dup = False, PacketID = 0\<rparr>,
      EvWorker (Some (ConnectionError ''EOF'')),
      EvSubscribedPublish \<lparr>QoS = QosAtMostOnce, Topic = ''c'', Payload = [3], Retain = False, Dup = False, PacketID = 0\<rparr>,
      EvSpawn, EvWorker None, EvWorker None, EvWorker None]
     \<lparr>sys_session = (newSession ''c'' Map.empty)
        \<lparr>publisher_quit := ChanOpen, publisher_stopped := 1\<rparr>,
      sys_worker = WorkerRunning, sys_calls = []\<rparr>))
   = [PublishMsg \<lparr>QoS = QosAtLeastOnce, Topic = ''a'', Payload = [1], Retain = False, Dup = False, PacketID = 0\<rparr>,
      PublishMsg \<lparr>QoS = QosExactlyOnce, Topic = ''b'', Payload = [2], Retain = False, Dup = False, PacketID = 0\<rparr>,
      PublishMsg \<lparr>QoS = QosAtLeastOnce, Topic = ''a'', Payload = [1], Retain = False, Dup = True, PacketID = 1\<rparr>,
      PublishMsg \<lparr>QoS = QosAtMostOnce, Topic = ''c'', Payload = [3], Retain = False, Dup = False, PacketID = 0\<rparr>] \<and>
   sys_worker
     \<lparr>sys_session = (newSession ''c'' Map.empty)
        \<lparr>publisher_quit := ChanOpen, publisher_stopped := 1\<rparr>,
      sys_worker = WorkerRunning, sys_calls = []\<rparr> \<noteq> ProcessDown \<and>
   (\<forall>e. EvWorker (Some e) \<notin> set
     [EvSubscribedPublish \<lparr>QoS = QosAtLeastOnce, Topic = ''a'', Payload = [1], Retain = True, Dup = True, PacketID = 0\<rparr>,
      EvWorker None,
      EvSubscribedPublish \<lparr>QoS = QosExactlyOnce, Topic = ''b'', Payload = [2], Retain = False, Dup = False, PacketID = 0\<rparr>]) \<and>
   dequeued (sys_calls (run
     [EvSubscribedPublish \<lparr>QoS = QosAtLeastOnce, Topic = ''a'', Payload = [1], Retain = True, Dup = True, PacketID = 0\<rparr>,
      EvWorker None,
      EvSubscribedPublish \<lparr>QoS = QosExactlyOnce, Topic = ''b'', Payload = [2], Retain = False, Dup = False, PacketID = 0\<rparr>]
     \<lparr>sys_session = (newSession ''c'' Map.empty)
        \<lparr>publisher_quit := ChanOpen, publisher_stopped := 1\<rparr>,
      sys_worker = WorkerRunning, sys_calls = []\<rparr>)) @
   publisher_messages (sys_session (run
     [EvSubscribedPublish \<lparr>QoS = QosAtLeastOnce, Topic = ''a'', Payload = [1], Retain = True, Dup = True, PacketID = 0\<rparr>,
      EvWorker None,
      EvSubscribedPublish \<lparr>QoS = QosExactlyOnce, Topic = ''b'', Payload = [2], Retain = False, Dup = False, PacketID = 0\<rparr>]
     \<lparr>sys_session = (newSession ''c'' Map.empty)
        \<lparr>publisher_quit := ChanOpen, publisher_stopped := 1\<rparr>,
      sys_worker = WorkerRunning, sys_calls = []\<rparr>))
   = [PublishMsg \<lparr>QoS = QosAtLeastOnce, Topic = ''a'', Payload = [1], Retain = False, Dup = False, PacketID = 0\<rparr>,
      PublishMsg \<lparr>QoS = QosExactlyOnce, Topic = ''b'', Payload = [2], Retain = False, Dup = False, PacketID = 0\<rparr>]"
  using publish_order
    [of "\<lparr>sys_session = (newSession ''c'' Map.empty)
        \<lparr>publisher_quit := ChanOpen, publisher_stopped := 1\<rparr>,
      sys_worker = WorkerRunning, sys_calls = []\<rparr>"
        "[EvSubscribedPublish \<lparr>QoS = QosAtLeastOnce, Topic = ''a'', Payload = [1], Retain = True, Dup = True, PacketID = 0\<rparr>,
      EvSubscribedPublish \<lparr>QoS = QosExactlyOnce, Topic = ''b'', Payload = [2], Retain = False, Dup = False, PacketID = 0\<rparr>,
      EvWorker (Some (ConnectionError ''EOF'')),
      EvSubscribedPublish \<lparr>QoS = QosAtMostOnce, Topic = ''c'', Payload = [3], Retain = False, Dup = False, PacketID = 0\<rparr>,
      EvSpawn, EvWorker None, EvWorker None, EvWorker None]"]
    publish_order
    [of "\<lparr>sys_session = (newSession ''c'' Map.empty)
        \<lparr>publisher_quit := ChanOpen, publisher_stopped := 1\<rparr>,
      sys_worker = WorkerRunning, sys_calls = []\<rparr>"
        "[EvSubscribedPublish \<lparr>QoS = QosAtLeastOnce, Topic = ''a'', Payload = [1], Retain = True, Dup = True, PacketID = 0\<rparr>,
      EvWorker None,
      EvSubscribedPublish \<lparr>QoS = QosExactlyOnce, Topic = ''b'', Payload = [2], Retain = False, Dup = False, PacketID = 0\<rparr>]"]
  by (simp add: run_def worker_turn_def isDone_def newSession_def publishWorker_iteration_def
      publishWorker_deferred_def register_outbound_def rollback_outbound_def newPacketID_def
      onSubscribedPublish_def NewPublishMessage_def ackQueue_put_def ackQueue_ack_def Let_def)

end
